theory Spec2Isabelle
  imports Main "HOL-Library.Sublist"
begin

section \<open>Python strings and integers\<close>

text \<open>
  A Python \<^verbatim>\<open>str\<close> is a \<^typ>\<open>string\<close> whose characters stand for the code points
  0..255; the character classes below are the ones CPython uses on that range.
  Python integers are unbounded, hence \<^typ>\<open>int\<close>. The interpreter's limit on the
  number of digits that \<^verbatim>\<open>int()\<close> converts is not part of the model.
\<close>

datatype error =
    ValueError
  | RequestException
  | OSError
  | AuthenticationError
  | SearchError
  | ProfileError

definition py_ord :: "char \<Rightarrow> nat" where
  "py_ord c = of_char c"

text \<open>\<^verbatim>\<open>\d\<close> of the \<^verbatim>\<open>re\<close> module: the decimal digits.\<close>

definition re_digit :: "char \<Rightarrow> bool" where
  "re_digit c \<longleftrightarrow> 48 \<le> py_ord c \<and> py_ord c \<le> 57"

text \<open>\<^verbatim>\<open>str.isdigit\<close> also holds of the superscripts U+00B2, U+00B3 and U+00B9.\<close>

definition isdigit_char :: "char \<Rightarrow> bool" where
  "isdigit_char c \<longleftrightarrow> re_digit c \<or> py_ord c = 178 \<or> py_ord c = 179 \<or> py_ord c = 185"

definition isdigit :: "string \<Rightarrow> bool" where
  "isdigit s \<longleftrightarrow> s \<noteq> [] \<and> list_all isdigit_char s"

text \<open>Whitespace of \<^verbatim>\<open>str.strip()\<close>, \<^verbatim>\<open>str.isspace()\<close> and of \<^verbatim>\<open>\s\<close>.\<close>

definition isspace_char :: "char \<Rightarrow> bool" where
  "isspace_char c \<longleftrightarrow>
     (9 \<le> py_ord c \<and> py_ord c \<le> 13) \<or> (28 \<le> py_ord c \<and> py_ord c \<le> 32)
     \<or> py_ord c = 133 \<or> py_ord c = 160"

definition lstrip_by :: "(char \<Rightarrow> bool) \<Rightarrow> string \<Rightarrow> string" where
  "lstrip_by P s = dropWhile P s"

definition rstrip_by :: "(char \<Rightarrow> bool) \<Rightarrow> string \<Rightarrow> string" where
  "rstrip_by P s = rev (dropWhile P (rev s))"

definition strip_by :: "(char \<Rightarrow> bool) \<Rightarrow> string \<Rightarrow> string" where
  "strip_by P s = rstrip_by P (lstrip_by P s)"

text \<open>\<^verbatim>\<open>s.strip()\<close>\<close>

definition py_strip :: "string \<Rightarrow> string" where
  "py_strip s = strip_by isspace_char s"

text \<open>\<^verbatim>\<open>s[:m]\<close>: a negative bound counts from the end.\<close>

definition slice_to :: "'a list \<Rightarrow> int \<Rightarrow> 'a list" where
  "slice_to xs m = (if 0 \<le> m then take (nat m) xs else take (length xs - nat (- m)) xs)"

text \<open>\<^verbatim>\<open>s.startswith(p)\<close> and \<^verbatim>\<open>p in s\<close>\<close>

definition startswith :: "string \<Rightarrow> string \<Rightarrow> bool" where
  "startswith s p \<longleftrightarrow> take (length p) s = p"

fun contains :: "string \<Rightarrow> string \<Rightarrow> bool" where
  "contains [] p \<longleftrightarrow> p = []"
| "contains (c # cs) p \<longleftrightarrow> startswith (c # cs) p \<or> contains cs p"

text \<open>\<^verbatim>\<open>s.split(":")\<close>\<close>

fun split_colon :: "string \<Rightarrow> string list" where
  "split_colon [] = [[]]"
| "split_colon (c # cs) =
     (if c = CHR '':'' then [] # split_colon cs
      else (case split_colon cs of
              [] \<Rightarrow> [[c]]
            | p # ps \<Rightarrow> (c # p) # ps))"

text \<open>\<^verbatim>\<open>str(i)\<close> for an integer \<open>i\<close>\<close>

fun str_nat :: "nat \<Rightarrow> string" where
  "str_nat n =
     (if n < 10 then [''0123456789'' ! n]
      else str_nat (n div 10) @ [''0123456789'' ! (n mod 10)])"

declare str_nat.simps [simp del]

definition str_int :: "int \<Rightarrow> string" where
  "str_int i = (if i < 0 then CHR ''-'' # str_nat (nat (- i)) else str_nat (nat i))"

text \<open>The format specification \<^verbatim>\<open>{n:02d}\<close>: sign-aware zero padding to width two.\<close>

definition format_02d :: "int \<Rightarrow> string" where
  "format_02d n = (if 0 \<le> n \<and> n < 10 then CHR ''0'' # str_int n else str_int n)"

text \<open>
  \<^verbatim>\<open>int(s)\<close> on a string: white space around the literal (the ASCII white space, and
  U+0085 and U+00A0, which the conversion turns into blanks first), an optional sign,
  then decimal digits with single underscores allowed between digits.
\<close>

definition int_space :: "char \<Rightarrow> bool" where
  "int_space c \<longleftrightarrow>
     (9 \<le> py_ord c \<and> py_ord c \<le> 13) \<or> py_ord c = 32 \<or> py_ord c = 133 \<or> py_ord c = 160"

fun digits_value :: "nat \<Rightarrow> string \<Rightarrow> nat" where
  "digits_value acc [] = acc"
| "digits_value acc (c # cs) = digits_value (10 * acc + (py_ord c - 48)) cs"

fun underscores_ok :: "string \<Rightarrow> bool" where
  "underscores_ok [] \<longleftrightarrow> False"
| "underscores_ok [c] \<longleftrightarrow> re_digit c"
| "underscores_ok (c # d # cs) \<longleftrightarrow>
     (if c = CHR ''_'' then False
      else if d = CHR ''_'' then (case cs of [] \<Rightarrow> False | e # _ \<Rightarrow> re_digit e \<and> underscores_ok cs)
      else underscores_ok (d # cs))"

definition py_int :: "string \<Rightarrow> int option" where
  "py_int s =
     (let t = dropWhile int_space s;
          neg = (case t of c # _ \<Rightarrow> c = CHR ''-'' | [] \<Rightarrow> False);
          u = (case t of c # r \<Rightarrow> if c = CHR ''-'' \<or> c = CHR ''+'' then r else t | [] \<Rightarrow> t);
          body = takeWhile (\<lambda>c. re_digit c \<or> c = CHR ''_'') u;
          rest = dropWhile (\<lambda>c. re_digit c \<or> c = CHR ''_'') u
      in if underscores_ok body \<and> list_all int_space rest
         then Some ((if neg then - 1 else 1) * int (digits_value 0 (filter re_digit body)))
         else None)"

section \<open>utils.py\<close>

subsection \<open>\<^verbatim>\<open>parse_duration\<close>\<close>

text \<open>
  One optional group \<^verbatim>\<open>(?:(\d+)u)?\<close> of the shorthand pattern, matched at the head of
  \<open>s\<close>: the captured digits (if the group matched) and the rest of the input. The group
  matches exactly when the longest run of digits is non-empty and followed by the unit
  letter: a shorter run of digits is followed by a digit, not by the letter.
\<close>

definition unit_group :: "char \<Rightarrow> string \<Rightarrow> string option \<times> string" where
  "unit_group u s =
     (let ds = takeWhile re_digit s; r = dropWhile re_digit s
      in (case r of
            [] \<Rightarrow> (None, s)
          | c # r' \<Rightarrow> if ds \<noteq> [] \<and> c = u then (Some ds, r') else (None, s)))"

text \<open>\<^verbatim>\<open>re.fullmatch(r"(?:(\d+)h)?(?:(\d+)m)?(?:(\d+)s)?", s)\<close>: the three groups.\<close>

definition shorthand_fullmatch :: "string \<Rightarrow> (string option \<times> string option \<times> string option) option" where
  "shorthand_fullmatch s =
     (case unit_group (CHR ''h'') s of (h, s1) \<Rightarrow>
      case unit_group (CHR ''m'') s1 of (m, s2) \<Rightarrow>
      case unit_group (CHR ''s'') s2 of (sec, s3) \<Rightarrow>
        if s3 = [] then Some (h, m, sec) else None)"

text \<open>\<^verbatim>\<open>int(match.group(i) or 0)\<close>\<close>

definition group_int :: "string option \<Rightarrow> int" where
  "group_int g = (case g of None \<Rightarrow> 0 | Some ds \<Rightarrow> int (digits_value 0 ds))"

text \<open>
  The shorthand branch: taken when the pattern matches the whole string and at least one
  group took part in the match.
\<close>

definition shorthand_seconds :: "string \<Rightarrow> int option" where
  "shorthand_seconds s =
     (case shorthand_fullmatch s of
        None \<Rightarrow> None
      | Some (h, m, sec) \<Rightarrow>
          if h \<noteq> None \<or> m \<noteq> None \<or> sec \<noteq> None
          then Some (group_int h * 3600 + group_int m * 60 + group_int sec)
          else None)"

text \<open>
  The colon branch: two or three fields, each converted by \<^verbatim>\<open>int\<close>; a field that
  \<^verbatim>\<open>int\<close> rejects and any other number of fields end in the final \<^verbatim>\<open>raise\<close>.
\<close>

definition colon_seconds :: "string \<Rightarrow> int option" where
  "colon_seconds s =
     (case split_colon s of
        [a, b] \<Rightarrow>
          (case (py_int a, py_int b) of
             (Some minutes, Some seconds) \<Rightarrow> Some (minutes * 60 + seconds)
           | _ \<Rightarrow> None)
      | [a, b, c] \<Rightarrow>
          (case (py_int a, py_int b, py_int c) of
             (Some hours, Some minutes, Some seconds) \<Rightarrow>
               Some (hours * 3600 + minutes * 60 + seconds)
           | _ \<Rightarrow> None)
      | _ \<Rightarrow> None)"

definition parse_duration :: "string \<Rightarrow> error + int" where
  "parse_duration duration_str =
     (if duration_str = [] then Inr 0
      else
        let s = py_strip duration_str in
        if isdigit s then (case py_int s of None \<Rightarrow> Inl ValueError | Some n \<Rightarrow> Inr n)
        else
          (case shorthand_seconds s of
             Some n \<Rightarrow> Inr n
           | None \<Rightarrow>
               (case colon_seconds s of
                  Some n \<Rightarrow> Inr n
                | None \<Rightarrow> Inl ValueError)))"

subsection \<open>\<^verbatim>\<open>format_duration\<close>\<close>

definition format_duration :: "int \<Rightarrow> string" where
  "format_duration seconds =
     (if seconds < 60 then str_int seconds @ ''s''
      else
        let minutes = seconds div 60; secs = seconds mod 60 in
        if minutes < 60 then str_int minutes @ '':'' @ format_02d secs
        else
          let hours = minutes div 60; mins = minutes mod 60
          in str_int hours @ '':'' @ format_02d mins @ '':'' @ format_02d secs)"

subsection \<open>The accepted duration formats, as the specification words them\<close>

text \<open>
  Plain seconds: a non-empty string of decimal digits.
\<close>

definition digits :: "string \<Rightarrow> bool" where
  "digits ds \<longleftrightarrow> ds \<noteq> [] \<and> list_all re_digit ds"

definition seconds_form :: "string \<Rightarrow> bool" where
  "seconds_form t \<longleftrightarrow> digits t"

text \<open>
  Shorthand \<^verbatim>\<open>NhNmNs\<close>: each unit is absent, or a number followed by its letter; at
  least one unit is present.
\<close>

definition unit_text :: "string option \<Rightarrow> char \<Rightarrow> string" where
  "unit_text g u = (case g of None \<Rightarrow> [] | Some ds \<Rightarrow> ds @ [u])"

definition opt_digits :: "string option \<Rightarrow> bool" where
  "opt_digits g = (case g of None \<Rightarrow> True | Some ds \<Rightarrow> digits ds)"

definition shorthand_form :: "string \<Rightarrow> bool" where
  "shorthand_form t \<longleftrightarrow>
     (\<exists>h m s. (h \<noteq> None \<or> m \<noteq> None \<or> s \<noteq> None) \<and> opt_digits h \<and> opt_digits m \<and> opt_digits s \<and>
        t = unit_text h (CHR ''h'') @ unit_text m (CHR ''m'') @ unit_text s (CHR ''s''))"

text \<open>
  \<^verbatim>\<open>MM:SS\<close> and \<^verbatim>\<open>H:MM:SS\<close>: two or three fields joined by colons, each of them a
  literal that \<^verbatim>\<open>int\<close> converts.
\<close>

fun join_colon :: "string list \<Rightarrow> string" where
  "join_colon [] = []"
| "join_colon [p] = p"
| "join_colon (p # q # ps) = p @ CHR '':'' # join_colon (q # ps)"

definition colon_form :: "string \<Rightarrow> bool" where
  "colon_form t \<longleftrightarrow>
     (\<exists>ps. (length ps = 2 \<or> length ps = 3) \<and>
        (\<forall>p \<in> set ps. CHR '':'' \<notin> set p \<and> py_int p \<noteq> None) \<and> t = join_colon ps)"

definition accepted_form :: "string \<Rightarrow> bool" where
  "accepted_form t \<longleftrightarrow> seconds_form t \<or> shorthand_form t \<or> colon_form t"

subsection \<open>\<^verbatim>\<open>sanitize_filename\<close>\<close>

text \<open>The character class \<^verbatim>\<open>[<>:"/\\|?*]\<close> of the first substitution.\<close>

definition invalid_char :: "char \<Rightarrow> bool" where
  "invalid_char c \<longleftrightarrow>
     c \<in> {CHR ''<'', CHR ''>'', CHR '':'', CHR 0x22, CHR ''/'', CHR 0x5C, CHR ''|'', CHR ''?'', CHR ''*''}"

text \<open>
  \<^verbatim>\<open>re.sub(r"[\s_]+", "_", s)\<close>: every maximal run of white space and underscores becomes
  one underscore; \<open>in_run\<close> tells that the previous character belonged to such a run.
\<close>

fun collapse_runs :: "bool \<Rightarrow> string \<Rightarrow> string" where
  "collapse_runs in_run [] = []"
| "collapse_runs in_run (c # cs) =
     (if isspace_char c \<or> c = CHR ''_''
      then (if in_run then collapse_runs True cs else CHR ''_'' # collapse_runs True cs)
      else c # collapse_runs False cs)"

text \<open>The characters removed by \<^verbatim>\<open>strip(". ")\<close> and \<^verbatim>\<open>rstrip(". ")\<close>.\<close>

definition dot_or_space :: "char \<Rightarrow> bool" where
  "dot_or_space c \<longleftrightarrow> c = CHR ''.'' \<or> c = CHR '' ''"

definition sanitize_filename :: "string \<Rightarrow> int \<Rightarrow> string" where
  "sanitize_filename filename max_length =
     (let s1 = map (\<lambda>c. if invalid_char c then CHR ''_'' else c) filename;
          s2 = filter (\<lambda>c. 32 \<le> py_ord c) s1;
          s3 = collapse_runs False s2;
          s4 = strip_by dot_or_space s3;
          s5 = (if int (length s4) > max_length
                then rstrip_by dot_or_space (slice_to s4 max_length)
                else s4)
      in if s5 = [] then ''unnamed'' else s5)"

section \<open>Representative values of the duration functions\<close>

text \<open>
  C9: \<open>format_duration\<close> maps 45 to "45s", 330 to "5:30" and 5025 to "1:23:45";
  \<open>parse_duration\<close> maps "5:30" to 330, "1:23:45" to 5025, "5m30s" to 330, "1h30m" to
  5400 and "90" to 90.
\<close>

theorem duration_representative_values:
  "format_duration 45 = ''45s'' \<and>
   format_duration 330 = ''5:30'' \<and>
   format_duration 5025 = ''1:23:45'' \<and>
   parse_duration ''5:30'' = Inr 330 \<and>
   parse_duration ''1:23:45'' = Inr 5025 \<and>
   parse_duration ''5m30s'' = Inr 330 \<and>
   parse_duration ''1h30m'' = Inr 5400 \<and>
   parse_duration ''90'' = Inr 90"
  by code_simp

section \<open>Sanitised file names\<close>

lemma rstrip_by_prefix: "rstrip_by P s @ rev (takeWhile P (rev s)) = s"
proof -
  have "rstrip_by P s @ rev (takeWhile P (rev s))
        = rev (takeWhile P (rev s) @ dropWhile P (rev s))"
    by (simp only: rstrip_by_def rev_append)
  also have "\<dots> = rev (rev s)"
    by (simp only: takeWhile_dropWhile_id)
  finally show ?thesis by simp
qed

lemma rstrip_by_last: "rstrip_by P s \<noteq> [] \<Longrightarrow> \<not> P (last (rstrip_by P s))"
  unfolding rstrip_by_def by (simp add: last_rev hd_dropWhile)

lemma rstrip_by_hd:
  assumes "rstrip_by P s \<noteq> []"
  shows "hd (rstrip_by P s) = hd s"
proof -
  have "hd (rstrip_by P s @ rev (takeWhile P (rev s))) = hd (rstrip_by P s)"
    using assms by (rule hd_append2)
  then show ?thesis by (simp only: rstrip_by_prefix)
qed

lemma rstrip_by_length: "length (rstrip_by P s) \<le> length s"
  unfolding rstrip_by_def by (metis length_dropWhile_le length_rev)

lemma rstrip_by_set: "set (rstrip_by P s) \<subseteq> set s"
  unfolding rstrip_by_def using set_dropWhileD by fastforce

lemma lstrip_by_hd: "lstrip_by P s \<noteq> [] \<Longrightarrow> \<not> P (hd (lstrip_by P s))"
  unfolding lstrip_by_def by (simp add: hd_dropWhile)

lemma lstrip_by_set: "set (lstrip_by P s) \<subseteq> set s"
  unfolding lstrip_by_def using set_dropWhileD by fastforce

lemma strip_by_ends:
  assumes "strip_by P s \<noteq> []"
  shows "\<not> P (hd (strip_by P s)) \<and> \<not> P (last (strip_by P s))"
proof -
  have ne: "rstrip_by P (lstrip_by P s) \<noteq> []"
    using assms by (simp add: strip_by_def)
  then have "lstrip_by P s \<noteq> []"
    by (auto simp: rstrip_by_def)
  then have "\<not> P (hd (lstrip_by P s))"
    by (rule lstrip_by_hd)
  moreover have "hd (rstrip_by P (lstrip_by P s)) = hd (lstrip_by P s)"
    using ne by (rule rstrip_by_hd)
  moreover have "\<not> P (last (rstrip_by P (lstrip_by P s)))"
    using ne by (rule rstrip_by_last)
  ultimately show ?thesis by (simp add: strip_by_def)
qed

lemma strip_by_set: "set (strip_by P s) \<subseteq> set s"
  unfolding strip_by_def using lstrip_by_set rstrip_by_set by fastforce

lemma slice_to_take: "\<exists>k. slice_to xs m = take k xs"
  unfolding slice_to_def by auto

lemma slice_to_length: "0 \<le> m \<Longrightarrow> int (length (slice_to xs m)) \<le> m"
  unfolding slice_to_def by auto

lemma collapse_runs_set: "set (collapse_runs b s) \<subseteq> insert (CHR ''_'') (set s)"
  by (induction s arbitrary: b) auto

lemma invalid_char_underscore: "\<not> invalid_char (CHR ''_'')"
  by (simp add: invalid_char_def)

lemma sanitize_filename_chars:
  "list_all (\<lambda>c. \<not> invalid_char c) (sanitize_filename filename max_length)"
proof -
  define s1 where "s1 = map (\<lambda>c. if invalid_char c then CHR ''_'' else c) filename"
  define s2 where "s2 = filter (\<lambda>c. 32 \<le> py_ord c) s1"
  define s3 where "s3 = collapse_runs False s2"
  define s4 where "s4 = strip_by dot_or_space s3"
  define s5 where "s5 = (if int (length s4) > max_length
                then rstrip_by dot_or_space (slice_to s4 max_length) else s4)"
  have r: "sanitize_filename filename max_length = (if s5 = [] then ''unnamed'' else s5)"
    by (simp add: sanitize_filename_def s1_def s2_def s3_def s4_def s5_def)
  have 1: "\<forall>c \<in> set s1. \<not> invalid_char c"
    by (auto simp: s1_def invalid_char_underscore)
  have 2: "set s2 \<subseteq> set s1" by (auto simp: s2_def)
  have 3: "set s3 \<subseteq> insert (CHR ''_'') (set s2)"
    unfolding s3_def by (rule collapse_runs_set)
  have 4: "set s4 \<subseteq> set s3" unfolding s4_def by (rule strip_by_set)
  obtain k where k: "slice_to s4 max_length = take k s4"
    using slice_to_take by blast
  have "set (rstrip_by dot_or_space (slice_to s4 max_length)) \<subseteq> set s4"
    using rstrip_by_set [of dot_or_space "take k s4"] set_take_subset [of k s4] k by auto
  then have 5: "set s5 \<subseteq> set s4" by (auto simp: s5_def)
  have "\<forall>c \<in> set s5. \<not> invalid_char c"
    using 1 2 3 4 5 invalid_char_underscore by blast
  moreover have "list_all (\<lambda>c. \<not> invalid_char c) ''unnamed''"
    by (simp add: invalid_char_def)
  ultimately show ?thesis unfolding r by (simp add: list_all_iff)
qed

lemma sanitize_filename_ends:
  "sanitize_filename filename max_length \<noteq> [] \<and>
   \<not> dot_or_space (hd (sanitize_filename filename max_length)) \<and>
   \<not> dot_or_space (last (sanitize_filename filename max_length))"
proof -
  define s3 where "s3 = collapse_runs False (filter (\<lambda>c. 32 \<le> py_ord c)
     (map (\<lambda>c. if invalid_char c then CHR ''_'' else c) filename))"
  define s4 where "s4 = strip_by dot_or_space s3"
  define s5 where "s5 = (if int (length s4) > max_length
                then rstrip_by dot_or_space (slice_to s4 max_length) else s4)"
  have r: "sanitize_filename filename max_length = (if s5 = [] then ''unnamed'' else s5)"
    by (simp add: sanitize_filename_def s3_def s4_def s5_def)
  show ?thesis
  proof (cases "s5 = []")
    case True
    then show ?thesis unfolding r by (simp add: dot_or_space_def)
  next
    case False
    have s4_ends: "s4 \<noteq> [] \<Longrightarrow> \<not> dot_or_space (hd s4) \<and> \<not> dot_or_space (last s4)"
      unfolding s4_def by (rule strip_by_ends)
    have "\<not> dot_or_space (hd s5) \<and> \<not> dot_or_space (last s5)"
    proof (cases "int (length s4) > max_length")
      case long: True
      obtain k where k: "slice_to s4 max_length = take k s4"
        using slice_to_take by blast
      have e: "s5 = rstrip_by dot_or_space (take k s4)"
        using long k by (simp add: s5_def)
      have ne5: "rstrip_by dot_or_space (take k s4) \<noteq> []"
        using False e by simp
      have empty: "rstrip_by dot_or_space [] = []"
        by (simp add: rstrip_by_def)
      have ne: "take k s4 \<noteq> []"
      proof
        assume a: "take k s4 = []"
        have "s5 = []" using e unfolding a empty .
        then show False using False by simp
      qed
      then have "s4 \<noteq> []" by auto
      have "hd s5 = hd (take k s4)"
        unfolding e using ne5 by (rule rstrip_by_hd)
      also have "\<dots> = hd s4"
        using ne by (simp add: hd_take)
      finally have "\<not> dot_or_space (hd s5)"
        using s4_ends \<open>s4 \<noteq> []\<close> by simp
      moreover have "\<not> dot_or_space (last s5)"
        unfolding e using ne5 by (rule rstrip_by_last)
      ultimately show ?thesis by simp
    next
      case short: False
      then have "s5 = s4" by (simp add: s5_def)
      then show ?thesis using False s4_ends by simp
    qed
    then show ?thesis unfolding r using False by simp
  qed
qed

lemma sanitize_filename_length:
  assumes "7 \<le> max_length"
  shows "int (length (sanitize_filename filename max_length)) \<le> max_length"
proof -
  define s3 where "s3 = collapse_runs False (filter (\<lambda>c. 32 \<le> py_ord c)
     (map (\<lambda>c. if invalid_char c then CHR ''_'' else c) filename))"
  define s4 where "s4 = strip_by dot_or_space s3"
  define s5 where "s5 = (if int (length s4) > max_length
                then rstrip_by dot_or_space (slice_to s4 max_length) else s4)"
  have r: "sanitize_filename filename max_length = (if s5 = [] then ''unnamed'' else s5)"
    by (simp add: sanitize_filename_def s3_def s4_def s5_def)
  have "int (length s5) \<le> max_length"
  proof (cases "int (length s4) > max_length")
    case True
    have "length (rstrip_by dot_or_space (slice_to s4 max_length)) \<le> length (slice_to s4 max_length)"
      by (rule rstrip_by_length)
    moreover have "int (length (slice_to s4 max_length)) \<le> max_length"
      using assms by (intro slice_to_length) simp
    ultimately show ?thesis using True by (simp add: s5_def)
  next
    case False
    then show ?thesis by (simp add: s5_def)
  qed
  then show ?thesis unfolding r using assms by simp
qed

text \<open>
  C8: for every input string, \<open>sanitize_filename\<close> (with the maximum length 200 of its
  signature, which every caller uses) returns a string with no character of
  \<^verbatim>\<open><>:"/\\|?*\<close>, with no leading or trailing dot or space, of length at most the
  maximum length, and never empty; the degenerate input "...." yields the placeholder.
\<close>

theorem sanitize_filename_safe:
  "list_all (\<lambda>c. \<not> invalid_char c) (sanitize_filename filename 200) \<and>
   sanitize_filename filename 200 \<noteq> [] \<and>
   \<not> dot_or_space (hd (sanitize_filename filename 200)) \<and>
   \<not> dot_or_space (last (sanitize_filename filename 200)) \<and>
   length (sanitize_filename filename 200) \<le> 200 \<and>
   sanitize_filename ''....'' 200 = ''unnamed''"
proof -
  have "int (length (sanitize_filename filename 200)) \<le> 200"
    by (rule sanitize_filename_length) simp
  moreover have "sanitize_filename ''....'' 200 = ''unnamed''"
    by code_simp
  ultimately show ?thesis
    using sanitize_filename_chars [of filename 200] sanitize_filename_ends [of filename 200]
    by simp
qed

theorem sanitize_filename_safe_witness:
  "sanitize_filename ''Some:/Title*?'' 200 = ''Some_Title_'' \<and>
   list_all (\<lambda>c. \<not> invalid_char c) (sanitize_filename ''Some:/Title*?'' 200) \<and>
   \<not> dot_or_space (hd (sanitize_filename ''Some:/Title*?'' 200)) \<and>
   \<not> dot_or_space (last (sanitize_filename ''Some:/Title*?'' 200)) \<and>
   length (sanitize_filename ''Some:/Title*?'' 200) \<le> 200"
proof -
  have "sanitize_filename ''Some:/Title*?'' 200 = ''Some_Title_''"
    by code_simp
  then show ?thesis
    using sanitize_filename_safe [of "''Some:/Title*?''"] by simp
qed

end
